theory Spec2Isabelle
  imports Main "HOL-Library.Word"
begin

section \<open>The OAuth flow sequencer of \<open>client/src/lib/oauth-state-machine.ts\<close>\<close>

text \<open>
  The module is a table of seven transitions, each a guard \<open>canTransition\<close> and an action
  \<open>execute\<close>, and a driver \<open>executeStep\<close> that runs the transition of the current step.
  Every action is a straight line of awaited calls; an \<open>await\<close> either yields a value or
  rejects, and a rejection leaves the action at once. The embedding is therefore sequential:
  a call that may throw returns a sum (\<open>Inl\<close> the thrown value), and what a run does to its
  surroundings (the calls of \<open>updateState\<close>, the writes to the provider) is the trace it
  returns beside its result.
\<close>

subsection \<open>Values\<close>

text \<open>
  A JavaScript string whose characters the code inspects (the authorization code, which is
  trimmed) is the list of its UTF-16 code units. Strings that are only passed on or compared
  as a whole (URLs, messages, scopes) are HOL strings.
\<close>

type_synonym js_string = "16 word list"

text \<open>A thrown value is an \<open>Error\<close> object (by its message) or anything else (by what
  \<open>String(e)\<close> gives for it).\<close>

datatype Error = Error string

datatype thrown = Throw_Error Error | Throw_value string

text \<open>A \<open>URL\<close> object, by its \<open>href\<close>.\<close>

datatype URL = URL string

datatype OAuthStep =
    prm_discovery
  | oauth_metadata_discovery
  | client_registration
  | authorization_redirect
  | authorization_code
  | token_request
  | complete

record OAuthProtectedResourceMetadata =
  prm_resource :: string
  prm_authorization_servers :: "string list option"
  prm_scopes_supported :: "string list option"

record OAuthMetadata =
  issuer :: string
  scopes_supported :: "string list option"

record OAuthClientMetadata =
  client_name :: string
  redirect_uris :: "string list"
  scope :: "string option"

record OAuthClientInformation =
  client_id :: string
  client_secret :: "string option"

record OAuthTokens =
  access_token :: string
  token_type :: string

text \<open>\<open>state.resource\<close> is a \<open>URL\<close> object, or a string when the state came back from
  storage; \<open>token_request\<close> tells the two apart with \<open>instanceof URL\<close>.\<close>

datatype resource_value = Resource_URL URL | Resource_string string

text \<open>
  The Flow State, declared in \<open>./auth-types\<close>. The fields are those the transitions read
  or write, \<open>null\<close>/\<open>undefined\<close> being \<open>None\<close>; fields the transitions never touch live
  in the record's extension.
\<close>

record AuthDebuggerState =
  oauthStep :: OAuthStep
  resourceMetadata :: "OAuthProtectedResourceMetadata option"
  resourceMetadataError :: "Error option"
  resource :: "resource_value option"
  authServerUrl :: "URL option"
  oauthMetadata :: "OAuthMetadata option"
  oauthClientInfo :: "OAuthClientInformation option"
  authorizationUrl :: "URL option"
  authorizationCode :: "js_string option"
  validationError :: "string option"
  oauthTokens :: "OAuthTokens option"

text \<open>One key of the object literal handed to \<open>updateState\<close>; a call of \<open>updateState\<close> is
  the list of its keys, in the order written.\<close>

datatype field_update =
    Set_oauthStep OAuthStep
  | Set_resourceMetadata "OAuthProtectedResourceMetadata option"
  | Set_resourceMetadataError "Error option"
  | Set_resource "resource_value option"
  | Set_authServerUrl "URL option"
  | Set_oauthMetadata "OAuthMetadata option"
  | Set_oauthClientInfo "OAuthClientInformation option"
  | Set_authorizationUrl "URL option"
  | Set_validationError "string option"
  | Set_oauthTokens "OAuthTokens option"

subsection \<open>The provider and the other collaborators\<close>

text \<open>
  \<open>DebugInspectorOAuthClientProvider\<close> is a collaborator, defined in \<open>./auth\<close> outside
  this module. A transition reads it and writes to it; no transition reads back what it has
  written. The provider is therefore taken by what its properties and readers give during
  one invocation (\<open>clientInformation()\<close> is awaited and \<open>codeVerifier()\<close> may throw, so both
  are sums), and its writes are events of the trace.
\<close>

record DebugInspectorOAuthClientProvider =
  clientMetadata :: OAuthClientMetadata
  redirectUrl :: string
  getServerMetadata :: "OAuthMetadata option"
  clientInformation :: "thrown + OAuthClientInformation option"
  codeVerifier :: "thrown + string"

record startAuthorization_options =
  sa_metadata :: "OAuthMetadata option"
  sa_clientInformation :: "OAuthClientInformation option"
  sa_redirectUrl :: string
  sa_scope :: "string option"
  sa_state :: string
  sa_resource :: "resource_value option"

record exchangeAuthorization_options =
  ea_metadata :: "OAuthMetadata option"
  ea_clientInformation :: "OAuthClientInformation option"
  ea_authorizationCode :: "js_string option"
  ea_codeVerifier :: string
  ea_redirectUri :: string
  ea_resource :: "URL option"

text \<open>
  The functions the module imports from the SDK and from \<open>@/utils/oauthUtils\<close>, the \<open>URL\<close>
  constructor (\<open>new_URL input base\<close>, which throws a \<open>TypeError\<close> on what is no URL) and the
  provider's constructor. They are parameters: every theorem below holds whatever they do.
\<close>

record collaborators =
  discoverOAuthProtectedResourceMetadata :: "string \<Rightarrow> thrown + OAuthProtectedResourceMetadata"
  selectResourceURL ::
    "string \<Rightarrow> DebugInspectorOAuthClientProvider \<Rightarrow> OAuthProtectedResourceMetadata option
      \<Rightarrow> thrown + URL option"
  new_URL :: "string \<Rightarrow> string option \<Rightarrow> thrown + URL"
  discoverAuthorizationServerMetadata :: "URL option \<Rightarrow> thrown + OAuthMetadata option"
  OAuthMetadataSchema_parseAsync :: "OAuthMetadata \<Rightarrow> thrown + OAuthMetadata"
  registerClient ::
    "string \<Rightarrow> OAuthMetadata option \<Rightarrow> OAuthClientMetadata
      \<Rightarrow> thrown + OAuthClientInformation"
  discoverScopes :: "string \<Rightarrow> OAuthProtectedResourceMetadata option \<Rightarrow> thrown + string option"
  startAuthorization :: "string \<Rightarrow> startAuthorization_options \<Rightarrow> thrown + (URL \<times> string)"
  exchangeAuthorization :: "string \<Rightarrow> exchangeAuthorization_options \<Rightarrow> thrown + OAuthTokens"
  generateOAuthState :: string
  new_DebugInspectorOAuthClientProvider :: "string \<Rightarrow> DebugInspectorOAuthClientProvider"

subsection \<open>Runs\<close>

text \<open>
  What a run does, in order: a call of the update callback, a write to the provider, the
  assignment to \<open>clientMetadata.scope\<close>, and the registration request (the one collaborator
  call the specification speaks of as made or skipped). The callback and the provider's
  savers are the caller's state setter and storage writes: a call of one is recorded and
  returns.
\<close>

datatype event =
    UpdateState "field_update list"
  | SaveServerMetadata OAuthMetadata
  | SaveClientInformation OAuthClientInformation
  | SaveCodeVerifier string
  | SaveTokens OAuthTokens
  | Assign_clientMetadata_scope string
  | RegisterClient string "OAuthMetadata option" OAuthClientMetadata

type_synonym 'a run = "event list \<times> (thrown + 'a)"

definition done_with :: "'a \<Rightarrow> 'a run" where
  "done_with x = ([], Inr x)"

definition throw :: "thrown \<Rightarrow> 'a run" where
  "throw e = ([], Inl e)"

definition await :: "thrown + 'a \<Rightarrow> 'a run" where
  "await r = ([], r)"

definition emit :: "event \<Rightarrow> unit run" where
  "emit ev = ([ev], Inr ())"

definition and_then :: "'a run \<Rightarrow> ('a \<Rightarrow> 'b run) \<Rightarrow> 'b run" where
  "and_then m f =
     (case m of
        (tr, Inl e) \<Rightarrow> (tr, Inl e)
      | (tr, Inr x) \<Rightarrow> (case f x of (tr', r) \<Rightarrow> (tr @ tr', r)))"

definition trace :: "'a run \<Rightarrow> event list" where
  "trace r = fst r"

definition outcome :: "'a run \<Rightarrow> thrown + 'a" where
  "outcome r = snd r"

fun updates_of :: "event list \<Rightarrow> field_update list list" where
  "updates_of [] = []"
| "updates_of (UpdateState u # evs) = u # updates_of evs"
| "updates_of (_ # evs) = updates_of evs"

subsection \<open>String helpers\<close>

text \<open>\<open>Array.prototype.join(" ")\<close> on an array of strings.\<close>

fun join_space :: "string list \<Rightarrow> string" where
  "join_space [] = []"
| "join_space [x] = x"
| "join_space (x # y # ys) = x @ '' '' @ join_space (y # ys)"

text \<open>
  \<open>String.prototype.trim\<close> strips the code units that ECMAScript counts as WhiteSpace or
  LineTerminator from both ends: TAB, LF, VT, FF, CR, SP, NBSP, U+1680, U+2000 to U+200A,
  LS, PS, U+202F, U+205F, U+3000 and the byte order mark U+FEFF.
\<close>

definition is_WhiteSpace :: "16 word \<Rightarrow> bool" where
  "is_WhiteSpace c =
     (c = 0x0009 \<or> c = 0x000A \<or> c = 0x000B \<or> c = 0x000C \<or> c = 0x000D \<or> c = 0x0020
      \<or> c = 0x00A0 \<or> c = 0x1680 \<or> (0x2000 \<le> c \<and> c \<le> 0x200A) \<or> c = 0x2028
      \<or> c = 0x2029 \<or> c = 0x202F \<or> c = 0x205F \<or> c = 0x3000 \<or> c = 0xFEFF)"

definition trim :: "js_string \<Rightarrow> js_string" where
  "trim s = rev (dropWhile is_WhiteSpace (rev (dropWhile is_WhiteSpace s)))"

text \<open>The step's name, as the template literal of \<open>executeStep\<close> prints it.\<close>

fun string_of_OAuthStep :: "OAuthStep \<Rightarrow> string" where
  "string_of_OAuthStep prm_discovery = ''prm_discovery''"
| "string_of_OAuthStep oauth_metadata_discovery = ''oauth_metadata_discovery''"
| "string_of_OAuthStep client_registration = ''client_registration''"
| "string_of_OAuthStep authorization_redirect = ''authorization_redirect''"
| "string_of_OAuthStep authorization_code = ''authorization_code''"
| "string_of_OAuthStep token_request = ''token_request''"
| "string_of_OAuthStep complete = ''complete''"

subsection \<open>The context and the transition table\<close>

record 'a StateMachineContext =
  state :: "'a AuthDebuggerState_scheme"
  serverUrl :: string
  provider :: DebugInspectorOAuthClientProvider

record 'a StateTransition =
  canTransition :: "'a StateMachineContext \<Rightarrow> thrown + bool"
  execute :: "collaborators \<Rightarrow> 'a StateMachineContext \<Rightarrow> unit run"

text \<open>\<open>prm_discovery\<close>: only the fetch stands inside the \<open>try\<close>; \<open>selectResourceURL\<close> and
  the two \<open>URL\<close> constructions stand after it.\<close>

definition wrap_thrown :: "thrown \<Rightarrow> Error" where
  "wrap_thrown e = (case e of Throw_Error err \<Rightarrow> err | Throw_value s \<Rightarrow> Error s)"

definition has_authorization_servers :: "OAuthProtectedResourceMetadata option \<Rightarrow> bool" where
  "has_authorization_servers rm =
     (case rm of
        None \<Rightarrow> False
      | Some m \<Rightarrow> (case prm_authorization_servers m of None \<Rightarrow> False | Some xs \<Rightarrow> length xs \<noteq> 0))"

definition first_authorization_server :: "OAuthProtectedResourceMetadata option \<Rightarrow> string" where
  "first_authorization_server rm =
     (case rm of
        Some m \<Rightarrow> (case prm_authorization_servers m of Some (x # _) \<Rightarrow> x | _ \<Rightarrow> [])
      | None \<Rightarrow> [])"

text \<open>The \<open>try\<close> block: the values of \<open>resourceMetadata\<close> and \<open>resourceMetadataError\<close>
  after it.\<close>

definition try_discover ::
  "collaborators \<Rightarrow> string \<Rightarrow> OAuthProtectedResourceMetadata option \<times> Error option" where
  "try_discover env url =
     (case discoverOAuthProtectedResourceMetadata env url of
        Inr m \<Rightarrow> (Some m, None)
      | Inl e \<Rightarrow> (None, Some (wrap_thrown e)))"

definition prm_discovery_execute :: "collaborators \<Rightarrow> 'a StateMachineContext \<Rightarrow> unit run" where
  "prm_discovery_execute env context =
     (let (resourceMetadata, resourceMetadataError) = try_discover env (serverUrl context)
      in and_then (await (selectResourceURL env (serverUrl context) (provider context) resourceMetadata))
           (\<lambda>resource.
         and_then (await (new_URL env ''/'' (Some (serverUrl context))))
           (\<lambda>root.
         and_then
           (if has_authorization_servers resourceMetadata
            then await (new_URL env (first_authorization_server resourceMetadata) None)
            else done_with root)
           (\<lambda>authServerUrl.
         emit (UpdateState
           [Set_resourceMetadata resourceMetadata,
            Set_resource (map_option Resource_URL resource),
            Set_resourceMetadataError resourceMetadataError,
            Set_authServerUrl (Some authServerUrl),
            Set_oauthStep oauth_metadata_discovery])))))"

definition oauth_metadata_discovery_execute ::
  "collaborators \<Rightarrow> 'a StateMachineContext \<Rightarrow> unit run" where
  "oauth_metadata_discovery_execute env context =
     (let authServerUrl = authServerUrl (state context)
      in and_then (await (discoverAuthorizationServerMetadata env authServerUrl))
           (\<lambda>metadata.
         case metadata of
           None \<Rightarrow> throw (Throw_Error (Error ''Failed to discover OAuth metadata''))
         | Some metadata \<Rightarrow>
             and_then (await (OAuthMetadataSchema_parseAsync env metadata))
               (\<lambda>parsedMetadata.
             and_then (emit (SaveServerMetadata parsedMetadata))
               (\<lambda>_.
             emit (UpdateState
               [Set_oauthMetadata (Some parsedMetadata),
                Set_oauthStep client_registration])))))"

text \<open>
  \<open>client_registration\<close>. The \<open>!\<close> of \<open>state.oauthMetadata!\<close> is a compile-time assertion
  only: a \<open>null\<close> passes on as it is, and the read of \<open>metadata.scopes_supported\<close> then
  throws a \<open>TypeError\<close> (it is reached when the resource metadata names no scopes). An
  array is truthy even when empty, so \<open>a || b\<close> takes \<open>a\<close> whenever it is there.
\<close>

definition scopesSupported :: "'a AuthDebuggerState_scheme \<Rightarrow> thrown + string list option" where
  "scopesSupported st =
     (case (case resourceMetadata st of None \<Rightarrow> None | Some rm \<Rightarrow> prm_scopes_supported rm) of
        Some scopes \<Rightarrow> Inr (Some scopes)
      | None \<Rightarrow>
          (case oauthMetadata st of
             None \<Rightarrow>
               Inl (Throw_Error
                 (Error ''Cannot read properties of null (reading 'scopes_supported')''))
           | Some metadata \<Rightarrow> Inr (scopes_supported metadata)))"

definition client_registration_execute ::
  "collaborators \<Rightarrow> 'a StateMachineContext \<Rightarrow> unit run" where
  "client_registration_execute env context =
     (let metadata = oauthMetadata (state context);
          clientMetadata = clientMetadata (provider context)
      in and_then (await (scopesSupported (state context)))
           (\<lambda>scopesSupported.
         and_then
           (case scopesSupported of
              Some scopes \<Rightarrow>
                and_then (emit (Assign_clientMetadata_scope (join_space scopes)))
                  (\<lambda>_. done_with (clientMetadata\<lparr>scope := Some (join_space scopes)\<rparr>))
            | None \<Rightarrow> done_with clientMetadata)
           (\<lambda>clientMetadata.
         and_then (await (clientInformation (provider context)))
           (\<lambda>fullInformation.
         and_then
           (case fullInformation of
              Some info \<Rightarrow> done_with info
            | None \<Rightarrow>
                and_then (emit (RegisterClient (serverUrl context) metadata clientMetadata))
                  (\<lambda>_.
                and_then (await (registerClient env (serverUrl context) metadata clientMetadata))
                  (\<lambda>registered.
                and_then (emit (SaveClientInformation registered))
                  (\<lambda>_. done_with registered))))
           (\<lambda>fullInformation.
         emit (UpdateState
           [Set_oauthClientInfo (Some fullInformation),
            Set_oauthStep authorization_redirect]))))))"

definition authorization_redirect_execute ::
  "collaborators \<Rightarrow> 'a StateMachineContext \<Rightarrow> unit run" where
  "authorization_redirect_execute env context =
     (let metadata = oauthMetadata (state context);
          clientInformation = oauthClientInfo (state context)
      in and_then (await (discoverScopes env (serverUrl context) (resourceMetadata (state context))))
           (\<lambda>scope.
         and_then (await (startAuthorization env (serverUrl context)
              \<lparr>sa_metadata = metadata,
               sa_clientInformation = clientInformation,
               sa_redirectUrl = redirectUrl (provider context),
               sa_scope = scope,
               sa_state = generateOAuthState env,
               sa_resource = resource (state context)\<rparr>))
           (\<lambda>(authorizationUrl, codeVerifier).
         and_then (emit (SaveCodeVerifier codeVerifier))
           (\<lambda>_.
         emit (UpdateState
           [Set_authorizationUrl (Some authorizationUrl),
            Set_oauthStep authorization_code])))))"

text \<open>\<open>authorization_code\<close>: \<open>!code\<close> holds of \<open>undefined\<close>, \<open>null\<close> and the empty string.\<close>

definition code_missing_or_blank :: "js_string option \<Rightarrow> bool" where
  "code_missing_or_blank code =
     (case code of None \<Rightarrow> True | Some s \<Rightarrow> s = [] \<or> trim s = [])"

definition authorization_code_execute ::
  "collaborators \<Rightarrow> 'a StateMachineContext \<Rightarrow> unit run" where
  "authorization_code_execute env context =
     (if code_missing_or_blank (authorizationCode (state context))
      then and_then
             (emit (UpdateState
               [Set_validationError (Some ''You need to provide an authorization code'')]))
             (\<lambda>_. throw (Throw_Error (Error ''Authorization code required'')))
      else emit (UpdateState
             [Set_validationError None,
              Set_oauthStep token_request]))"

text \<open>\<open>token_request\<close>. The guard's \<open>&&\<close> stops at the first falsy operand, so the awaited
  \<open>clientInformation()\<close> is reached only after the first two hold.\<close>

definition truthy_string :: "'c list option \<Rightarrow> bool" where
  "truthy_string s = (case s of None \<Rightarrow> False | Some cs \<Rightarrow> cs \<noteq> [])"

definition token_request_canTransition :: "'a StateMachineContext \<Rightarrow> thrown + bool" where
  "token_request_canTransition context =
     (if \<not> truthy_string (authorizationCode (state context)) then Inr False
      else if getServerMetadata (provider context) = None then Inr False
      else (case clientInformation (provider context) of
              Inl e \<Rightarrow> Inl e
            | Inr info \<Rightarrow> Inr (info \<noteq> None)))"

definition token_request_resource ::
  "collaborators \<Rightarrow> resource_value option \<Rightarrow> thrown + URL option" where
  "token_request_resource env r =
     (case r of
        None \<Rightarrow> Inr None
      | Some (Resource_URL u) \<Rightarrow> Inr (Some u)
      | Some (Resource_string s) \<Rightarrow>
          (if s = [] then Inr None
           else (case new_URL env s None of Inl e \<Rightarrow> Inl e | Inr u \<Rightarrow> Inr (Some u))))"

definition token_request_execute :: "collaborators \<Rightarrow> 'a StateMachineContext \<Rightarrow> unit run" where
  "token_request_execute env context =
     and_then (await (codeVerifier (provider context)))
       (\<lambda>codeVerifier.
     (let metadata = getServerMetadata (provider context)
      in and_then (await (clientInformation (provider context)))
           (\<lambda>clientInformation.
         and_then (await (token_request_resource env (resource (state context))))
           (\<lambda>resource.
         and_then (await (exchangeAuthorization env (serverUrl context)
              \<lparr>ea_metadata = metadata,
               ea_clientInformation = clientInformation,
               ea_authorizationCode = authorizationCode (state context),
               ea_codeVerifier = codeVerifier,
               ea_redirectUri = redirectUrl (provider context),
               ea_resource = resource\<rparr>))
           (\<lambda>tokens.
         and_then (emit (SaveTokens tokens))
           (\<lambda>_.
         emit (UpdateState
           [Set_oauthTokens (Some tokens),
            Set_oauthStep complete])))))))"

definition complete_execute :: "collaborators \<Rightarrow> 'a StateMachineContext \<Rightarrow> unit run" where
  "complete_execute env context = done_with ()"

fun oauthTransitions :: "OAuthStep \<Rightarrow> 'a StateTransition" where
  "oauthTransitions prm_discovery =
     \<lparr>canTransition = (\<lambda>context. Inr True),
      execute = prm_discovery_execute\<rparr>"
| "oauthTransitions oauth_metadata_discovery =
     \<lparr>canTransition = (\<lambda>context. Inr (authServerUrl (state context) \<noteq> None)),
      execute = oauth_metadata_discovery_execute\<rparr>"
| "oauthTransitions client_registration =
     \<lparr>canTransition = (\<lambda>context. Inr (oauthMetadata (state context) \<noteq> None)),
      execute = client_registration_execute\<rparr>"
| "oauthTransitions authorization_redirect =
     \<lparr>canTransition = (\<lambda>context.
        Inr (oauthMetadata (state context) \<noteq> None \<and> oauthClientInfo (state context) \<noteq> None)),
      execute = authorization_redirect_execute\<rparr>"
| "oauthTransitions authorization_code =
     \<lparr>canTransition = (\<lambda>context. Inr True),
      execute = authorization_code_execute\<rparr>"
| "oauthTransitions token_request =
     \<lparr>canTransition = token_request_canTransition,
      execute = token_request_execute\<rparr>"
| "oauthTransitions complete =
     \<lparr>canTransition = (\<lambda>context. Inr False),
      execute = complete_execute\<rparr>"

subsection \<open>The sequencer\<close>

definition executeStep ::
  "collaborators \<Rightarrow> string \<Rightarrow> 'a AuthDebuggerState_scheme \<Rightarrow> unit run" where
  "executeStep env url st =
     (let provider = new_DebugInspectorOAuthClientProvider env url;
          context = \<lparr>state = st, serverUrl = url, provider = provider\<rparr>;
          transition = oauthTransitions (oauthStep st)
      in and_then (await (canTransition transition context))
           (\<lambda>ok.
         if \<not> ok
         then throw (Throw_Error
                (Error (''Cannot transition from '' @ string_of_OAuthStep (oauthStep st))))
         else execute transition env context))"

subsection \<open>The specification's words\<close>

text \<open>The specification's "blank or absent" authorization code: no code at all, or a code
  with nothing in it but white space (the empty code among them).\<close>

definition absent_or_whitespace_only :: "js_string option \<Rightarrow> bool" where
  "absent_or_whitespace_only code =
     (case code of None \<Rightarrow> True | Some s \<Rightarrow> list_all is_WhiteSpace s)"


text \<open>
  The specification's declared precondition fields, step by step: none for \<open>prm_discovery\<close>,
  \<open>authorization_code\<close> and \<open>complete\<close>; \<open>authServerUrl\<close> for \<open>oauth_metadata_discovery\<close>;
  \<open>oauthMetadata\<close> for \<open>client_registration\<close>; \<open>oauthMetadata\<close> and \<open>oauthClientInfo\<close> for
  \<open>authorization_redirect\<close>; \<open>authorizationCode\<close>, the provider's stored server metadata and
  the provider's client information for \<open>token_request\<close>. Two contexts agree on them, and a
  context supplies them (each is truthy: an object is there, a string is there and not
  empty, the awaited lookup returns an object).
\<close>

fun declared_fields_agree ::
  "OAuthStep \<Rightarrow> 'a StateMachineContext \<Rightarrow> 'b StateMachineContext \<Rightarrow> bool" where
  "declared_fields_agree prm_discovery c1 c2 = True"
| "declared_fields_agree oauth_metadata_discovery c1 c2 =
     (authServerUrl (state c1) = authServerUrl (state c2))"
| "declared_fields_agree client_registration c1 c2 =
     (oauthMetadata (state c1) = oauthMetadata (state c2))"
| "declared_fields_agree authorization_redirect c1 c2 =
     (oauthMetadata (state c1) = oauthMetadata (state c2)
      \<and> oauthClientInfo (state c1) = oauthClientInfo (state c2))"
| "declared_fields_agree authorization_code c1 c2 = True"
| "declared_fields_agree token_request c1 c2 =
     (authorizationCode (state c1) = authorizationCode (state c2)
      \<and> getServerMetadata (provider c1) = getServerMetadata (provider c2)
      \<and> clientInformation (provider c1) = clientInformation (provider c2))"
| "declared_fields_agree complete c1 c2 = True"

fun declared_fields_supplied :: "OAuthStep \<Rightarrow> 'a StateMachineContext \<Rightarrow> bool" where
  "declared_fields_supplied prm_discovery c = True"
| "declared_fields_supplied oauth_metadata_discovery c = (authServerUrl (state c) \<noteq> None)"
| "declared_fields_supplied client_registration c = (oauthMetadata (state c) \<noteq> None)"
| "declared_fields_supplied authorization_redirect c =
     (oauthMetadata (state c) \<noteq> None \<and> oauthClientInfo (state c) \<noteq> None)"
| "declared_fields_supplied authorization_code c = True"
| "declared_fields_supplied token_request c =
     (truthy_string (authorizationCode (state c))
      \<and> getServerMetadata (provider c) \<noteq> None
      \<and> (case clientInformation (provider c) of Inr (Some info) \<Rightarrow> True | _ \<Rightarrow> False))"
| "declared_fields_supplied complete c = True"

subsection \<open>Reading a registration run\<close>

text \<open>The assignment of lines 97 to 99, as the events it leaves and as the metadata object
  that goes on to \<open>registerClient\<close>.\<close>

definition scope_events :: "string list option \<Rightarrow> event list" where
  "scope_events scopes =
     (case scopes of None \<Rightarrow> [] | Some xs \<Rightarrow> [Assign_clientMetadata_scope (join_space xs)])"

definition with_scope :: "OAuthClientMetadata \<Rightarrow> string list option \<Rightarrow> OAuthClientMetadata" where
  "with_scope cm scopes =
     (case scopes of None \<Rightarrow> cm | Some xs \<Rightarrow> cm\<lparr>scope := Some (join_space xs)\<rparr>)"

text \<open>Modelled from the spec: the provider's class is defined outside this module, and the
  specification gives its \<open>clientMetadata\<close> as "a template object mutated in place" by the
  registration step. The object the step reads from \<open>provider.clientMetadata\<close> is therefore
  the provider's own, and \<open>clientMetadata_after\<close> is that template once a run with the given
  trace is over: every assignment of the trace has been made to it.
\<close>

fun clientMetadata_after :: "OAuthClientMetadata \<Rightarrow> event list \<Rightarrow> OAuthClientMetadata" where
  "clientMetadata_after cm [] = cm"
| "clientMetadata_after cm (Assign_clientMetadata_scope s # evs) =
     clientMetadata_after (cm\<lparr>scope := Some s\<rparr>) evs"
| "clientMetadata_after cm (_ # evs) = clientMetadata_after cm evs"

subsection \<open>The caller's Flow State\<close>

text \<open>Modelled from the spec: the update callback is the caller's; the sequencer "reports an
  updated Flow State (via a caller-supplied update callback)", and the callback's parameter is
  a \<open>Partial\<close> of the state. \<open>updateState\<close> is that callback: it stores each reported key and
  keeps every other field. \<open>flow_state_after\<close> is the Flow State the caller holds once a run
  with the given trace is over.
\<close>

fun assign_field :: "'a AuthDebuggerState_scheme \<Rightarrow> field_update \<Rightarrow> 'a AuthDebuggerState_scheme" where
  "assign_field st (Set_oauthStep v) = st\<lparr>oauthStep := v\<rparr>"
| "assign_field st (Set_resourceMetadata v) = st\<lparr>resourceMetadata := v\<rparr>"
| "assign_field st (Set_resourceMetadataError v) = st\<lparr>resourceMetadataError := v\<rparr>"
| "assign_field st (Set_resource v) = st\<lparr>resource := v\<rparr>"
| "assign_field st (Set_authServerUrl v) = st\<lparr>authServerUrl := v\<rparr>"
| "assign_field st (Set_oauthMetadata v) = st\<lparr>oauthMetadata := v\<rparr>"
| "assign_field st (Set_oauthClientInfo v) = st\<lparr>oauthClientInfo := v\<rparr>"
| "assign_field st (Set_authorizationUrl v) = st\<lparr>authorizationUrl := v\<rparr>"
| "assign_field st (Set_validationError v) = st\<lparr>validationError := v\<rparr>"
| "assign_field st (Set_oauthTokens v) = st\<lparr>oauthTokens := v\<rparr>"

definition updateState ::
  "'a AuthDebuggerState_scheme \<Rightarrow> field_update list \<Rightarrow> 'a AuthDebuggerState_scheme" where
  "updateState st updates = foldl assign_field st updates"

definition flow_state_after ::
  "'a AuthDebuggerState_scheme \<Rightarrow> event list \<Rightarrow> 'a AuthDebuggerState_scheme" where
  "flow_state_after st tr = foldl updateState st (updates_of tr)"

subsection \<open>A concrete server\<close>

text \<open>
  The scenario of the specification's last testable property: the server
  \<open>https://mcp.example/\<close> publishes no resource metadata, its authorization server metadata
  validates, no client is registered yet and registration yields the client \<open>abc\<close>. The
  \<open>URL\<close> constructor of this environment knows the one resolution the scenario needs and
  rejects everything else, a string that is no URL among it.
\<close>

definition example_metadata :: OAuthMetadata where
  "example_metadata = \<lparr>issuer = ''https://mcp.example/'', scopes_supported = Some [''read'', ''write'']\<rparr>"

definition example_clientMetadata :: OAuthClientMetadata where
  "example_clientMetadata =
     \<lparr>client_name = ''MCP Inspector'',
      redirect_uris = [''http://localhost:6274/oauth/callback/debug''],
      scope = None\<rparr>"

definition example_client :: OAuthClientInformation where
  "example_client = \<lparr>client_id = ''abc'', client_secret = None\<rparr>"

definition example_tokens :: OAuthTokens where
  "example_tokens = \<lparr>access_token = ''tok'', token_type = ''Bearer''\<rparr>"

definition empty_provider :: DebugInspectorOAuthClientProvider where
  "empty_provider =
     \<lparr>clientMetadata = example_clientMetadata,
      redirectUrl = ''http://localhost:6274/oauth/callback/debug'',
      getServerMetadata = None,
      clientInformation = Inr None,
      codeVerifier = Inl (Throw_Error (Error ''No code verifier saved for session''))\<rparr>"

definition example_env :: collaborators where
  "example_env =
     \<lparr>discoverOAuthProtectedResourceMetadata = (\<lambda>url. Inl (Throw_Error (Error ''HTTP 404''))),
      selectResourceURL = (\<lambda>url p rm. Inr None),
      new_URL = (\<lambda>input base.
        if input = ''/'' \<and> base = Some ''https://mcp.example/''
        then Inr (URL ''https://mcp.example/'')
        else Inl (Throw_Error (Error ''Invalid URL''))),
      discoverAuthorizationServerMetadata = (\<lambda>url. Inr (Some example_metadata)),
      OAuthMetadataSchema_parseAsync = (\<lambda>m. Inr m),
      registerClient = (\<lambda>url m cm. Inr example_client),
      discoverScopes = (\<lambda>url rm. Inr (Some ''read write'')),
      startAuthorization = (\<lambda>url opts.
        Inr (URL ''https://mcp.example/authorize?state=s1'', ''verifier'')),
      exchangeAuthorization = (\<lambda>url opts. Inr example_tokens),
      generateOAuthState = ''s1'',
      new_DebugInspectorOAuthClientProvider = (\<lambda>url. empty_provider)\<rparr>"

definition initial_state :: AuthDebuggerState where
  "initial_state =
     \<lparr>oauthStep = prm_discovery,
      resourceMetadata = None,
      resourceMetadataError = None,
      resource = None,
      authServerUrl = None,
      oauthMetadata = None,
      oauthClientInfo = None,
      authorizationUrl = None,
      authorizationCode = None,
      validationError = None,
      oauthTokens = None\<rparr>"

text \<open>A second server, which does publish resource metadata: it names one authorization
  server and two scopes.\<close>

definition example_prm :: OAuthProtectedResourceMetadata where
  "example_prm =
     \<lparr>prm_resource = ''https://api.example/mcp'',
      prm_authorization_servers = Some [''https://auth.example/''],
      prm_scopes_supported = Some [''mcp:read'', ''mcp:call'']\<rparr>"

definition example_env_prm :: collaborators where
  "example_env_prm =
     example_env
       \<lparr>discoverOAuthProtectedResourceMetadata := (\<lambda>url. Inr example_prm),
        selectResourceURL := (\<lambda>url p rm. Inr (Some (URL ''https://api.example/mcp''))),
        new_URL := (\<lambda>input base.
          if input = ''/'' \<and> base = Some ''https://api.example/mcp''
          then Inr (URL ''https://api.example/'')
          else if input = ''https://auth.example/'' \<and> base = None
          then Inr (URL ''https://auth.example/'')
          else Inl (Throw_Error (Error ''Invalid URL'')))\<rparr>"

text \<open>The same resource server, with metadata whose first authorization server is no
  URL.\<close>

definition example_env_bad_server :: collaborators where
  "example_env_bad_server =
     example_env_prm
       \<lparr>discoverOAuthProtectedResourceMetadata :=
          (\<lambda>url. Inr (example_prm\<lparr>prm_authorization_servers :=
                           Some [''nonsense'', ''https://auth.example/'']\<rparr>))\<rparr>"

text \<open>The example server once more, at the registration step: with a client already in the
  provider's storage, and with a registration endpoint that refuses.\<close>

definition static_client :: OAuthClientInformation where
  "static_client = \<lparr>client_id = ''preregistered'', client_secret = Some ''s3cret''\<rparr>"

definition example_env_static :: collaborators where
  "example_env_static =
     example_env
       \<lparr>new_DebugInspectorOAuthClientProvider :=
          (\<lambda>url. empty_provider\<lparr>clientInformation := Inr (Some static_client)\<rparr>)\<rparr>"

definition example_env_refused :: collaborators where
  "example_env_refused =
     example_env
       \<lparr>registerClient :=
          (\<lambda>url m cm. Inl (Throw_Error (Error ''Dynamic client registration failed: HTTP 403'')))\<rparr>"

definition registration_state :: AuthDebuggerState where
  "registration_state =
     initial_state\<lparr>oauthStep := client_registration, oauthMetadata := Some example_metadata\<rparr>"

text \<open>Two contexts at \<open>token_request\<close> that share the code and what the provider has stored,
  and differ in everything else.\<close>

definition stored_provider :: DebugInspectorOAuthClientProvider where
  "stored_provider =
     empty_provider
       \<lparr>getServerMetadata := Some example_metadata,
        clientInformation := Inr (Some example_client),
        codeVerifier := Inr ''verifier''\<rparr>"

definition token_context :: "unit StateMachineContext" where
  "token_context =
     \<lparr>state = initial_state\<lparr>oauthStep := token_request,
                authorizationCode := Some [0x78, 0x79, 0x7A, 0x37, 0x38, 0x39]\<rparr>,
      serverUrl = ''https://mcp.example/'',
      provider = stored_provider\<rparr>"

definition other_token_context :: "unit StateMachineContext" where
  "other_token_context =
     \<lparr>state = initial_state\<lparr>oauthStep := complete,
                authorizationCode := Some [0x78, 0x79, 0x7A, 0x37, 0x38, 0x39],
                validationError := Some ''stale'',
                oauthTokens := Some example_tokens\<rparr>,
      serverUrl = ''https://elsewhere.example/'',
      provider = stored_provider\<lparr>redirectUrl := ''http://localhost:1/'',
                   codeVerifier := Inl (Throw_Error (Error ''No code verifier saved for session''))\<rparr>\<rparr>"

section \<open>Properties\<close>

subsection \<open>Running a sequence of calls\<close>

lemma emit_eq [simp]: "emit ev = ([ev], Inr ())"
  by (simp add: emit_def)

lemma throw_eq [simp]: "throw e = ([], Inl e)"
  by (simp add: throw_def)

lemma done_with_eq [simp]: "done_with x = ([], Inr x)"
  by (simp add: done_with_def)

lemma await_eq [simp]: "await r = ([], r)"
  by (simp add: await_def)

lemma and_then_Inl [simp]: "and_then (tr, Inl e) f = (tr, Inl e)"
  by (simp add: and_then_def)

lemma and_then_Inr [simp]: "and_then (tr, Inr x) f = (tr @ fst (f x), snd (f x))"
  by (simp add: and_then_def split: prod.splits)

lemma and_then_cases:
  "and_then ([], r) f = (case r of Inl e \<Rightarrow> ([], Inl e) | Inr x \<Rightarrow> f x)"
  by (simp split: sum.splits)

subsection \<open>The example servers, call by call\<close>

lemma example_env_calls [simp]:
  "discoverOAuthProtectedResourceMetadata example_env url = Inl (Throw_Error (Error ''HTTP 404''))"
  "selectResourceURL example_env url p rm = Inr None"
  "new_URL example_env input base =
     (if input = ''/'' \<and> base = Some ''https://mcp.example/''
      then Inr (URL ''https://mcp.example/'')
      else Inl (Throw_Error (Error ''Invalid URL'')))"
  "discoverAuthorizationServerMetadata example_env a = Inr (Some example_metadata)"
  "OAuthMetadataSchema_parseAsync example_env m = Inr m"
  "registerClient example_env url md cm = Inr example_client"
  "discoverScopes example_env url rm = Inr (Some ''read write'')"
  "startAuthorization example_env url sa =
     Inr (URL ''https://mcp.example/authorize?state=s1'', ''verifier'')"
  "exchangeAuthorization example_env url ea = Inr example_tokens"
  "generateOAuthState example_env = ''s1''"
  "new_DebugInspectorOAuthClientProvider example_env url = empty_provider"
  by (simp_all add: example_env_def)

lemma example_env_prm_calls [simp]:
  "discoverOAuthProtectedResourceMetadata example_env_prm url = Inr example_prm"
  "selectResourceURL example_env_prm url p rm = Inr (Some (URL ''https://api.example/mcp''))"
  "new_URL example_env_prm input base =
     (if input = ''/'' \<and> base = Some ''https://api.example/mcp''
      then Inr (URL ''https://api.example/'')
      else if input = ''https://auth.example/'' \<and> base = None
      then Inr (URL ''https://auth.example/'')
      else Inl (Throw_Error (Error ''Invalid URL'')))"
  "new_DebugInspectorOAuthClientProvider example_env_prm url = empty_provider"
  by (simp_all add: example_env_prm_def example_env_def)

lemma example_env_bad_server_calls [simp]:
  "discoverOAuthProtectedResourceMetadata example_env_bad_server url
     = Inr (example_prm\<lparr>prm_authorization_servers :=
              Some [''nonsense'', ''https://auth.example/'']\<rparr>)"
  "selectResourceURL example_env_bad_server url p rm = Inr (Some (URL ''https://api.example/mcp''))"
  "new_URL example_env_bad_server input base = new_URL example_env_prm input base"
  "new_DebugInspectorOAuthClientProvider example_env_bad_server url = empty_provider"
  by (simp_all add: example_env_bad_server_def example_env_prm_def example_env_def)

lemma example_env_fetch_fails [simp]:
  "try_discover example_env url = (None, Some (Error ''HTTP 404''))"
  by (simp add: try_discover_def wrap_thrown_def)

lemma example_env_prm_fetch [simp]:
  "try_discover example_env_prm url = (Some example_prm, None)"
  by (simp add: try_discover_def)

lemma initial_state_step [simp]: "oauthStep initial_state = prm_discovery"
  by (simp add: initial_state_def)

lemma registration_state_fields [simp]:
  "oauthStep registration_state = client_registration"
  "oauthMetadata registration_state = Some example_metadata"
  "scopesSupported registration_state = Inr (Some [''read'', ''write''])"
  by (simp_all add: registration_state_def scopesSupported_def initial_state_def
      example_metadata_def)

lemma example_env_static_calls [simp]:
  "clientInformation (new_DebugInspectorOAuthClientProvider example_env_static url)
     = Inr (Some static_client)"
  "clientMetadata (new_DebugInspectorOAuthClientProvider example_env_static url)
     = example_clientMetadata"
  by (simp_all add: example_env_static_def empty_provider_def)

lemma example_env_refused_calls [simp]:
  "new_DebugInspectorOAuthClientProvider example_env_refused url = empty_provider"
  "registerClient example_env_refused url m cm
     = Inl (Throw_Error (Error ''Dynamic client registration failed: HTTP 403''))"
  by (simp_all add: example_env_refused_def)

lemma empty_provider_fields [simp]:
  "clientInformation empty_provider = Inr None"
  "clientMetadata empty_provider = example_clientMetadata"
  "getServerMetadata empty_provider = None"
  by (simp_all add: empty_provider_def)

subsection \<open>The terminal step\<close>

text \<open>
  C1. Once the step is \<open>complete\<close>, every invocation of \<open>executeStep\<close> raises the guard
  violation that names \<open>complete\<close>; \<open>updateState\<close> is not called, so the caller's Flow State
  is the one it passed in. The guard of \<open>complete\<close> is false on every context and its action
  does nothing.
\<close>

theorem complete_is_terminal:
  assumes "oauthStep st = complete"
  shows "executeStep env url st = ([], Inl (Throw_Error (Error ''Cannot transition from complete'')))
       \<and> updates_of (trace (executeStep env url st)) = []
       \<and> flow_state_after st (trace (executeStep env url st)) = st
       \<and> canTransition (oauthTransitions complete) context = Inr False
       \<and> execute (oauthTransitions complete) env context' = ([], Inr ())"
  using assms
  by (simp add: executeStep_def trace_def flow_state_after_def complete_execute_def)

theorem complete_is_terminal_witness:
  "oauthStep (initial_state\<lparr>oauthStep := complete, oauthTokens := Some example_tokens\<rparr>) = complete
   \<and> executeStep example_env ''https://mcp.example/''
        (initial_state\<lparr>oauthStep := complete, oauthTokens := Some example_tokens\<rparr>)
      = ([], Inl (Throw_Error (Error ''Cannot transition from complete'')))"
proof -
  have at_complete:
    "oauthStep (initial_state\<lparr>oauthStep := complete, oauthTokens := Some example_tokens\<rparr>) = complete"
    by simp
  show ?thesis
    using at_complete complete_is_terminal [OF at_complete, THEN conjunct1] by simp
qed

subsection \<open>The authorization code\<close>

lemma trim_empty_iff: "trim s = [] \<longleftrightarrow> list_all is_WhiteSpace s"
proof
  assume "trim s = []"
  then have "dropWhile is_WhiteSpace (rev (dropWhile is_WhiteSpace s)) = []"
    by (simp add: trim_def)
  then have all_ws: "\<forall>c \<in> set (dropWhile is_WhiteSpace s). is_WhiteSpace c"
    by simp
  have "dropWhile is_WhiteSpace s = []"
  proof (rule ccontr)
    assume nonempty: "dropWhile is_WhiteSpace s \<noteq> []"
    then have "\<not> is_WhiteSpace (hd (dropWhile is_WhiteSpace s))"
      by (rule hd_dropWhile)
    moreover have "hd (dropWhile is_WhiteSpace s) \<in> set (dropWhile is_WhiteSpace s)"
      using nonempty by simp
    ultimately show False
      using all_ws by blast
  qed
  then show "list_all is_WhiteSpace s"
    by (simp add: list_all_iff)
next
  assume "list_all is_WhiteSpace s"
  then show "trim s = []"
    by (auto simp: trim_def list_all_iff dest: set_dropWhileD)
qed

lemma code_missing_or_blank_iff:
  "code_missing_or_blank code \<longleftrightarrow> absent_or_whitespace_only code"
  by (cases code) (auto simp: code_missing_or_blank_def absent_or_whitespace_only_def trim_empty_iff)

text \<open>
  C2. At step \<open>authorization_code\<close>: when the code is absent, empty or made of white space
  only, \<open>executeStep\<close> reports the validation message, raises, and the caller's step is
  still \<open>authorization_code\<close>; when the code has a character that is not white space,
  \<open>executeStep\<close> reports \<open>validationError = null\<close> together with the step
  \<open>token_request\<close>, and returns.
\<close>

theorem authorization_code_validation:
  assumes "oauthStep st = authorization_code"
  shows "(absent_or_whitespace_only (authorizationCode st) \<longrightarrow>
            executeStep env url st =
              ([UpdateState [Set_validationError (Some ''You need to provide an authorization code'')]],
               Inl (Throw_Error (Error ''Authorization code required'')))
          \<and> validationError (flow_state_after st (trace (executeStep env url st)))
              = Some ''You need to provide an authorization code''
          \<and> oauthStep (flow_state_after st (trace (executeStep env url st))) = authorization_code)
       \<and> (\<not> absent_or_whitespace_only (authorizationCode st) \<longrightarrow>
            executeStep env url st =
              ([UpdateState [Set_validationError None, Set_oauthStep token_request]], Inr ())
          \<and> validationError (flow_state_after st (trace (executeStep env url st))) = None
          \<and> oauthStep (flow_state_after st (trace (executeStep env url st))) = token_request)"
  using assms
  by (simp add: executeStep_def authorization_code_execute_def code_missing_or_blank_iff
      trace_def flow_state_after_def updateState_def)

theorem authorization_code_validation_witness:
  "oauthStep (initial_state\<lparr>oauthStep := authorization_code, authorizationCode := Some [0x20, 0x09]\<rparr>)
     = authorization_code
   \<and> absent_or_whitespace_only (Some [0x20, 0x09])
   \<and> executeStep example_env ''https://mcp.example/''
        (initial_state\<lparr>oauthStep := authorization_code, authorizationCode := Some [0x20, 0x09]\<rparr>)
      = ([UpdateState [Set_validationError (Some ''You need to provide an authorization code'')]],
         Inl (Throw_Error (Error ''Authorization code required'')))
   \<and> \<not> absent_or_whitespace_only (Some [0x78, 0x79, 0x7A, 0x37, 0x38, 0x39])
   \<and> executeStep example_env ''https://mcp.example/''
        (initial_state\<lparr>oauthStep := authorization_code,
           authorizationCode := Some [0x78, 0x79, 0x7A, 0x37, 0x38, 0x39]\<rparr>)
      = ([UpdateState [Set_validationError None, Set_oauthStep token_request]], Inr ())"
proof -
  have blank: "absent_or_whitespace_only (Some [0x20, 0x09])"
    by (simp add: absent_or_whitespace_only_def is_WhiteSpace_def)
  have filled: "\<not> absent_or_whitespace_only (Some [0x78, 0x79, 0x7A, 0x37, 0x38, 0x39])"
    by (simp add: absent_or_whitespace_only_def is_WhiteSpace_def)
  show ?thesis
    using blank filled
      authorization_code_validation
        [of "initial_state\<lparr>oauthStep := authorization_code, authorizationCode := Some [0x20, 0x09]\<rparr>"
            example_env "''https://mcp.example/''"]
      authorization_code_validation
        [of "initial_state\<lparr>oauthStep := authorization_code,
               authorizationCode := Some [0x78, 0x79, 0x7A, 0x37, 0x38, 0x39]\<rparr>"
            example_env "''https://mcp.example/''"]
    by simp
qed

subsection \<open>Resource metadata discovery\<close>

text \<open>What \<open>executeStep\<close> does at \<open>prm_discovery\<close>, call by call.\<close>

lemma executeStep_prm_discovery:
  assumes "oauthStep st = prm_discovery"
  shows "executeStep env url st =
     (case selectResourceURL env url (new_DebugInspectorOAuthClientProvider env url)
             (fst (try_discover env url)) of
        Inl e \<Rightarrow> ([], Inl e)
      | Inr r \<Rightarrow>
          (case new_URL env ''/'' (Some url) of
             Inl e \<Rightarrow> ([], Inl e)
           | Inr root \<Rightarrow>
               (case (if has_authorization_servers (fst (try_discover env url))
                      then new_URL env (first_authorization_server (fst (try_discover env url))) None
                      else Inr root) of
                  Inl e \<Rightarrow> ([], Inl e)
                | Inr a \<Rightarrow>
                    ([UpdateState
                       [Set_resourceMetadata (fst (try_discover env url)),
                        Set_resource (map_option Resource_URL r),
                        Set_resourceMetadataError (snd (try_discover env url)),
                        Set_authServerUrl (Some a),
                        Set_oauthStep oauth_metadata_discovery]],
                     Inr ()))))"
  using assms
  by (simp add: executeStep_def prm_discovery_execute_def split: prod.splits sum.splits)


text \<open>
  C3, as the code has it. The \<open>try\<close> block holds the fetch alone. When \<open>selectResourceURL\<close>
  returns and the \<open>URL\<close> constructions succeed, \<open>executeStep\<close> at \<open>prm_discovery\<close> returns
  whatever the fetch did: its failure, if any, is the \<open>resourceMetadataError\<close> of the one
  update, and the step reported is \<open>oauth_metadata_discovery\<close>.
\<close>

theorem prm_discovery_tolerates_fetch_failure:
  assumes "oauthStep st = prm_discovery"
    and "selectResourceURL env url (new_DebugInspectorOAuthClientProvider env url)
           (fst (try_discover env url)) = Inr r"
    and "new_URL env ''/'' (Some url) = Inr root"
    and "has_authorization_servers (fst (try_discover env url)) \<longrightarrow>
           (\<exists>a. new_URL env (first_authorization_server (fst (try_discover env url))) None = Inr a)"
  shows "outcome (executeStep env url st) = Inr ()
       \<and> (\<exists>upd. trace (executeStep env url st) = [UpdateState upd]
             \<and> Set_oauthStep oauth_metadata_discovery \<in> set upd
             \<and> Set_resourceMetadataError
                 (case discoverOAuthProtectedResourceMetadata env url of
                    Inl e \<Rightarrow> Some (wrap_thrown e) | Inr m \<Rightarrow> None) \<in> set upd)
       \<and> oauthStep (flow_state_after st (trace (executeStep env url st))) = oauth_metadata_discovery
       \<and> resourceMetadataError (flow_state_after st (trace (executeStep env url st))) =
           (case discoverOAuthProtectedResourceMetadata env url of
              Inl e \<Rightarrow> Some (wrap_thrown e) | Inr m \<Rightarrow> None)"
proof -
  have captured: "snd (try_discover env url) =
      (case discoverOAuthProtectedResourceMetadata env url of
         Inl e \<Rightarrow> Some (wrap_thrown e) | Inr m \<Rightarrow> None)"
    by (simp add: try_discover_def split: sum.splits)
  show ?thesis
  proof (cases "has_authorization_servers (fst (try_discover env url))")
    case True
    with assms(4) obtain a where
      "new_URL env (first_authorization_server (fst (try_discover env url))) None = Inr a"
      by blast
    with True assms(1-3) captured show ?thesis
      by (simp add: executeStep_prm_discovery outcome_def trace_def flow_state_after_def
          updateState_def)
  next
    case False
    with assms(1-3) captured show ?thesis
      by (simp add: executeStep_prm_discovery outcome_def trace_def flow_state_after_def
          updateState_def)
  qed
qed

theorem prm_discovery_tolerates_fetch_failure_witness:
  "oauthStep initial_state = prm_discovery
   \<and> discoverOAuthProtectedResourceMetadata example_env ''https://mcp.example/''
       = Inl (Throw_Error (Error ''HTTP 404''))
   \<and> outcome (executeStep example_env ''https://mcp.example/'' initial_state) = Inr ()
   \<and> resourceMetadataError
       (flow_state_after initial_state
          (trace (executeStep example_env ''https://mcp.example/'' initial_state)))
       = Some (Error ''HTTP 404'')
   \<and> oauthStep
       (flow_state_after initial_state
          (trace (executeStep example_env ''https://mcp.example/'' initial_state)))
       = oauth_metadata_discovery
   \<and> discoverOAuthProtectedResourceMetadata example_env_prm ''https://api.example/mcp''
       = Inr example_prm
   \<and> outcome (executeStep example_env_prm ''https://api.example/mcp'' initial_state) = Inr ()
   \<and> resourceMetadataError
       (flow_state_after initial_state
          (trace (executeStep example_env_prm ''https://api.example/mcp'' initial_state)))
       = None
   \<and> oauthStep
       (flow_state_after initial_state
          (trace (executeStep example_env_prm ''https://api.example/mcp'' initial_state)))
       = oauth_metadata_discovery"
proof -
  have step: "oauthStep initial_state = prm_discovery"
    by simp
  have selected:
    "selectResourceURL example_env ''https://mcp.example/''
       (new_DebugInspectorOAuthClientProvider example_env ''https://mcp.example/'')
       (fst (try_discover example_env ''https://mcp.example/'')) = Inr None"
    by simp
  have root: "new_URL example_env ''/'' (Some ''https://mcp.example/'') = Inr (URL ''https://mcp.example/'')"
    by simp
  have servers:
    "has_authorization_servers (fst (try_discover example_env ''https://mcp.example/'')) \<longrightarrow>
       (\<exists>a. new_URL example_env
               (first_authorization_server (fst (try_discover example_env ''https://mcp.example/'')))
               None = Inr a)"
    by (simp add: has_authorization_servers_def)
  have selected':
    "selectResourceURL example_env_prm ''https://api.example/mcp''
       (new_DebugInspectorOAuthClientProvider example_env_prm ''https://api.example/mcp'')
       (fst (try_discover example_env_prm ''https://api.example/mcp''))
     = Inr (Some (URL ''https://api.example/mcp''))"
    by simp
  have root': "new_URL example_env_prm ''/'' (Some ''https://api.example/mcp'')
               = Inr (URL ''https://api.example/'')"
    by simp
  have servers':
    "has_authorization_servers (fst (try_discover example_env_prm ''https://api.example/mcp'')) \<longrightarrow>
       (\<exists>a. new_URL example_env_prm
               (first_authorization_server
                  (fst (try_discover example_env_prm ''https://api.example/mcp'')))
               None = Inr a)"
    by (simp add: first_authorization_server_def example_prm_def)
  show ?thesis
    using step
      prm_discovery_tolerates_fetch_failure [OF step selected root servers]
      prm_discovery_tolerates_fetch_failure [OF step selected' root' servers']
    by (simp add: wrap_thrown_def)
qed

text \<open>C3 as it is written fails: with a server address that is no URL the fetch fails and is
  caught, and then \<open>new URL("/", serverUrl)\<close> throws outside the \<open>try\<close> block.\<close>

theorem prm_discovery_raises_counterexample:
  "oauthStep initial_state = prm_discovery
   \<and> outcome (executeStep example_env ''not a url'' initial_state)
       = Inl (Throw_Error (Error ''Invalid URL''))"
  by (simp add: executeStep_prm_discovery outcome_def)




text \<open>
  C10, as the code has it. An execution of \<open>prm_discovery\<close> that returns makes one update;
  the update writes \<open>resourceMetadata\<close> and \<open>resourceMetadataError\<close> both, and one of the two
  is \<open>null\<close> and the other is not: the metadata is there and the error \<open>null\<close> when the fetch
  returned, the metadata is \<open>null\<close> and the error the thrown one (wrapped when it was no
  \<open>Error\<close>) when the fetch threw. An execution that raises makes no update.
\<close>

theorem prm_discovery_single_update:
  assumes "oauthStep st = prm_discovery"
  shows "(outcome (executeStep env url st) = Inr () \<longrightarrow>
           (\<exists>rm err r a.
              trace (executeStep env url st) =
                [UpdateState
                   [Set_resourceMetadata rm, Set_resource r, Set_resourceMetadataError err,
                    Set_authServerUrl a, Set_oauthStep oauth_metadata_discovery]]
            \<and> (rm = None) \<noteq> (err = None)
            \<and> (case discoverOAuthProtectedResourceMetadata env url of
                  Inr m \<Rightarrow> rm = Some m \<and> err = None
                | Inl e \<Rightarrow> rm = None \<and> err = Some (wrap_thrown e))
            \<and> resourceMetadata (flow_state_after st (trace (executeStep env url st))) = rm
            \<and> resourceMetadataError (flow_state_after st (trace (executeStep env url st))) = err))
       \<and> (outcome (executeStep env url st) = Inl e' \<longrightarrow>
            updates_of (trace (executeStep env url st)) = [])"
  using assms
  by (auto simp: executeStep_prm_discovery try_discover_def outcome_def trace_def
      flow_state_after_def updateState_def split: sum.splits if_splits)

theorem prm_discovery_single_update_witness:
  "oauthStep initial_state = prm_discovery
   \<and> outcome (executeStep example_env ''https://mcp.example/'' initial_state) = Inr ()
   \<and> resourceMetadata
       (flow_state_after initial_state
          (trace (executeStep example_env ''https://mcp.example/'' initial_state))) = None
   \<and> resourceMetadataError
       (flow_state_after initial_state
          (trace (executeStep example_env ''https://mcp.example/'' initial_state)))
       = Some (Error ''HTTP 404'')
   \<and> outcome (executeStep example_env_prm ''https://api.example/mcp'' initial_state) = Inr ()
   \<and> resourceMetadata
       (flow_state_after initial_state
          (trace (executeStep example_env_prm ''https://api.example/mcp'' initial_state)))
       = Some example_prm
   \<and> resourceMetadataError
       (flow_state_after initial_state
          (trace (executeStep example_env_prm ''https://api.example/mcp'' initial_state))) = None"
proof -
  have step: "oauthStep initial_state = prm_discovery"
    by simp
  have no_prm: "outcome (executeStep example_env ''https://mcp.example/'' initial_state) = Inr ()"
    by (simp add: executeStep_prm_discovery outcome_def has_authorization_servers_def)
  have with_prm: "outcome (executeStep example_env_prm ''https://api.example/mcp'' initial_state) = Inr ()"
    by (simp add: executeStep_prm_discovery outcome_def has_authorization_servers_def
        first_authorization_server_def example_prm_def)
  have fails: "discoverOAuthProtectedResourceMetadata example_env ''https://mcp.example/''
       = Inl (Throw_Error (Error ''HTTP 404''))"
    by simp
  have fetches: "discoverOAuthProtectedResourceMetadata example_env_prm ''https://api.example/mcp''
       = Inr example_prm"
    by simp
  show ?thesis
    using step no_prm with_prm fails fetches
      prm_discovery_single_update
        [OF step, where env = example_env and url = "''https://mcp.example/''", THEN conjunct1]
      prm_discovery_single_update
        [OF step, where env = example_env_prm and url = "''https://api.example/mcp''",
         THEN conjunct1]
    by (auto simp: wrap_thrown_def)
qed

text \<open>C10 as it is written fails: an execution that raises writes neither field. With a
  server address that is no URL, \<open>new URL("/", serverUrl)\<close> throws before the update.\<close>

theorem prm_discovery_no_update_counterexample:
  "oauthStep initial_state = prm_discovery
   \<and> updates_of (trace (executeStep example_env ''not a url'' initial_state)) = []"
  by (simp add: executeStep_prm_discovery trace_def)

subsection \<open>Authorization server metadata discovery\<close>

lemma executeStep_oauth_metadata_discovery:
  assumes "oauthStep st = oauth_metadata_discovery" and "authServerUrl st = Some u"
  shows "executeStep env url st =
     (case discoverAuthorizationServerMetadata env (Some u) of
        Inl e \<Rightarrow> ([], Inl e)
      | Inr None \<Rightarrow> ([], Inl (Throw_Error (Error ''Failed to discover OAuth metadata'')))
      | Inr (Some metadata) \<Rightarrow>
          (case OAuthMetadataSchema_parseAsync env metadata of
             Inl e \<Rightarrow> ([], Inl e)
           | Inr parsedMetadata \<Rightarrow>
               ([SaveServerMetadata parsedMetadata,
                 UpdateState [Set_oauthMetadata (Some parsedMetadata),
                              Set_oauthStep client_registration]],
                Inr ())))"
  using assms
  by (simp add: executeStep_def oauth_metadata_discovery_execute_def
      split: sum.splits option.splits)

text \<open>
  C5. At \<open>oauth_metadata_discovery\<close> with the guard passed: when the fetch yields no
  metadata, \<open>executeStep\<close> raises \<open>Failed to discover OAuth metadata\<close>; when the metadata
  fails the schema, it raises what the parser threw; in both cases nothing is saved or
  reported and the caller's Flow State, its step included, is as before. When the metadata
  parses, the parsed metadata is handed to \<open>saveServerMetadata\<close> and then reported as
  \<open>oauthMetadata\<close> together with the step \<open>client_registration\<close>.
\<close>

theorem oauth_metadata_discovery_outcomes:
  assumes "oauthStep st = oauth_metadata_discovery" and "authServerUrl st = Some u"
  shows "(discoverAuthorizationServerMetadata env (Some u) = Inr None \<longrightarrow>
            executeStep env url st =
              ([], Inl (Throw_Error (Error ''Failed to discover OAuth metadata'')))
          \<and> flow_state_after st (trace (executeStep env url st)) = st)
       \<and> (discoverAuthorizationServerMetadata env (Some u) = Inr (Some metadata)
            \<and> OAuthMetadataSchema_parseAsync env metadata = Inl e \<longrightarrow>
            executeStep env url st = ([], Inl e)
          \<and> flow_state_after st (trace (executeStep env url st)) = st)
       \<and> (discoverAuthorizationServerMetadata env (Some u) = Inr (Some metadata)
            \<and> OAuthMetadataSchema_parseAsync env metadata = Inr parsedMetadata \<longrightarrow>
            executeStep env url st =
              ([SaveServerMetadata parsedMetadata,
                UpdateState [Set_oauthMetadata (Some parsedMetadata),
                             Set_oauthStep client_registration]],
               Inr ())
          \<and> oauthMetadata (flow_state_after st (trace (executeStep env url st)))
              = Some parsedMetadata
          \<and> oauthStep (flow_state_after st (trace (executeStep env url st)))
              = client_registration)"
  using assms
  by (simp add: executeStep_oauth_metadata_discovery trace_def flow_state_after_def
      updateState_def)

theorem oauth_metadata_discovery_outcomes_witness:
  "oauthStep (initial_state\<lparr>oauthStep := oauth_metadata_discovery,
                authServerUrl := Some (URL ''https://mcp.example/'')\<rparr>)
     = oauth_metadata_discovery
   \<and> executeStep (example_env\<lparr>discoverAuthorizationServerMetadata := (\<lambda>a. Inr None)\<rparr>)
        ''https://mcp.example/''
        (initial_state\<lparr>oauthStep := oauth_metadata_discovery,
           authServerUrl := Some (URL ''https://mcp.example/'')\<rparr>)
      = ([], Inl (Throw_Error (Error ''Failed to discover OAuth metadata'')))
   \<and> executeStep
        (example_env\<lparr>OAuthMetadataSchema_parseAsync :=
           (\<lambda>m. Inl (Throw_Error (Error ''ZodError'')))\<rparr>)
        ''https://mcp.example/''
        (initial_state\<lparr>oauthStep := oauth_metadata_discovery,
           authServerUrl := Some (URL ''https://mcp.example/'')\<rparr>)
      = ([], Inl (Throw_Error (Error ''ZodError'')))
   \<and> executeStep example_env ''https://mcp.example/''
        (initial_state\<lparr>oauthStep := oauth_metadata_discovery,
           authServerUrl := Some (URL ''https://mcp.example/'')\<rparr>)
      = ([SaveServerMetadata example_metadata,
          UpdateState [Set_oauthMetadata (Some example_metadata),
                       Set_oauthStep client_registration]],
         Inr ())"
proof -
  let ?st = "initial_state\<lparr>oauthStep := oauth_metadata_discovery,
               authServerUrl := Some (URL ''https://mcp.example/'')\<rparr>"
  let ?missing = "example_env\<lparr>discoverAuthorizationServerMetadata := (\<lambda>a. Inr None)\<rparr>"
  let ?invalid = "example_env\<lparr>OAuthMetadataSchema_parseAsync :=
                    (\<lambda>m. Inl (Throw_Error (Error ''ZodError'')))\<rparr>"
  have step: "oauthStep ?st = oauth_metadata_discovery"
    by simp
  have guard: "authServerUrl ?st = Some (URL ''https://mcp.example/'')"
    by simp
  have missing: "discoverAuthorizationServerMetadata ?missing (Some (URL ''https://mcp.example/''))
                 = Inr None"
    by simp
  have invalid: "discoverAuthorizationServerMetadata ?invalid (Some (URL ''https://mcp.example/''))
                   = Inr (Some example_metadata)
                 \<and> OAuthMetadataSchema_parseAsync ?invalid example_metadata
                   = Inl (Throw_Error (Error ''ZodError''))"
    by simp
  have valid: "discoverAuthorizationServerMetadata example_env (Some (URL ''https://mcp.example/''))
                 = Inr (Some example_metadata)
               \<and> OAuthMetadataSchema_parseAsync example_env example_metadata
                 = Inr example_metadata"
    by simp
  show ?thesis
    using step missing invalid valid
      oauth_metadata_discovery_outcomes
        [OF step guard, where env = ?missing and url = "''https://mcp.example/''"]
      oauth_metadata_discovery_outcomes
        [OF step guard, where env = ?invalid and url = "''https://mcp.example/''"
           and metadata = example_metadata and e = "Throw_Error (Error ''ZodError'')"]
      oauth_metadata_discovery_outcomes
        [OF step guard, where env = example_env and url = "''https://mcp.example/''"
           and metadata = example_metadata and parsedMetadata = example_metadata]
    by simp
qed

subsection \<open>Client registration\<close>

lemma scopesSupported_with_metadata:
  assumes "oauthMetadata st = Some metadata"
  shows "scopesSupported st =
     Inr (case (case resourceMetadata st of None \<Rightarrow> None | Some rm \<Rightarrow> prm_scopes_supported rm) of
            Some scopes \<Rightarrow> Some scopes
          | None \<Rightarrow> scopes_supported metadata)"
  using assms by (simp add: scopesSupported_def split: option.splits)

lemma executeStep_client_registration:
  assumes "oauthStep st = client_registration"
    and "oauthMetadata st = Some metadata"
    and "scopesSupported st = Inr scopes"
  shows "executeStep env url st =
     (let provider = new_DebugInspectorOAuthClientProvider env url;
          clientMetadata = with_scope (clientMetadata provider) scopes
      in case clientInformation provider of
           Inl e \<Rightarrow> (scope_events scopes, Inl e)
         | Inr (Some info) \<Rightarrow>
             (scope_events scopes @
                [UpdateState [Set_oauthClientInfo (Some info),
                              Set_oauthStep authorization_redirect]],
              Inr ())
         | Inr None \<Rightarrow>
             (case registerClient env url (Some metadata) clientMetadata of
                Inl e \<Rightarrow>
                  (scope_events scopes @ [RegisterClient url (Some metadata) clientMetadata],
                   Inl e)
              | Inr registered \<Rightarrow>
                  (scope_events scopes @
                     [RegisterClient url (Some metadata) clientMetadata,
                      SaveClientInformation registered,
                      UpdateState [Set_oauthClientInfo (Some registered),
                                   Set_oauthStep authorization_redirect]],
                   Inr ())))"
proof -
  let ?provider = "new_DebugInspectorOAuthClientProvider env url"
  let ?clientMetadata = "with_scope (clientMetadata ?provider) scopes"
  show ?thesis
  proof (cases "clientInformation ?provider")
    case (Inl e)
    with assms show ?thesis
      by (cases scopes)
        (simp_all add: executeStep_def client_registration_execute_def scope_events_def)
  next
    case (Inr fullInformation)
    show ?thesis
    proof (cases fullInformation)
      case (Some info)
      with Inr assms show ?thesis
        by (cases scopes)
          (simp_all add: executeStep_def client_registration_execute_def scope_events_def)
    next
      case None
      show ?thesis
      proof (cases "registerClient env url (Some metadata) ?clientMetadata")
        case (Inl e)
        with None Inr assms show ?thesis
          by (cases scopes)
            (simp_all add: executeStep_def client_registration_execute_def scope_events_def
              with_scope_def)
      next
        case registered: (Inr registered)
        with None Inr assms show ?thesis
          by (cases scopes)
            (simp_all add: executeStep_def client_registration_execute_def scope_events_def
              with_scope_def)
      qed
    qed
  qed
qed

lemma scope_events_no_registration [simp]:
  "SaveClientInformation info \<notin> set (scope_events scopes)"
  "RegisterClient u m cm \<notin> set (scope_events scopes)"
  "updates_of (scope_events scopes) = []"
  by (simp_all add: scope_events_def split: option.splits)

lemma updates_of_append [simp]: "updates_of (xs @ ys) = updates_of xs @ updates_of ys"
  by (induction xs rule: updates_of.induct) simp_all

text \<open>
  C6. At \<open>client_registration\<close> with the guard passed. When the provider already has client
  information, that information is what the step reports: \<open>registerClient\<close> is not called
  and \<open>saveClientInformation\<close> is not called. When the provider has none and
  \<open>registerClient\<close> returns, it has been called with the server metadata and the client
  metadata, its result is handed to \<open>saveClientInformation\<close>, and that result is what the
  step reports. Either way the one update sets \<open>oauthClientInfo\<close> and the step
  \<open>authorization_redirect\<close>.
\<close>

theorem client_registration_static_or_dynamic:
  assumes "oauthStep st = client_registration"
    and "oauthMetadata st = Some metadata"
    and "scopesSupported st = Inr scopes"
  shows "(clientInformation (new_DebugInspectorOAuthClientProvider env url) = Inr (Some info) \<longrightarrow>
            executeStep env url st =
              (scope_events scopes @
                 [UpdateState [Set_oauthClientInfo (Some info),
                               Set_oauthStep authorization_redirect]],
               Inr ())
          \<and> (\<forall>u m cm. RegisterClient u m cm \<notin> set (trace (executeStep env url st)))
          \<and> (\<forall>saved. SaveClientInformation saved \<notin> set (trace (executeStep env url st)))
          \<and> oauthClientInfo (flow_state_after st (trace (executeStep env url st))) = Some info
          \<and> oauthStep (flow_state_after st (trace (executeStep env url st)))
              = authorization_redirect)
       \<and> (clientInformation (new_DebugInspectorOAuthClientProvider env url) = Inr None
            \<and> registerClient env url (Some metadata)
                 (with_scope (clientMetadata (new_DebugInspectorOAuthClientProvider env url)) scopes)
                = Inr registered \<longrightarrow>
            executeStep env url st =
              (scope_events scopes @
                 [RegisterClient url (Some metadata)
                    (with_scope (clientMetadata (new_DebugInspectorOAuthClientProvider env url))
                       scopes),
                  SaveClientInformation registered,
                  UpdateState [Set_oauthClientInfo (Some registered),
                               Set_oauthStep authorization_redirect]],
               Inr ())
          \<and> oauthClientInfo (flow_state_after st (trace (executeStep env url st)))
              = Some registered
          \<and> oauthStep (flow_state_after st (trace (executeStep env url st)))
              = authorization_redirect)"
  using assms
  by (simp add: executeStep_client_registration trace_def flow_state_after_def updateState_def)

theorem client_registration_static_or_dynamic_witness:
  "oauthStep registration_state = client_registration
   \<and> executeStep example_env_static ''https://mcp.example/'' registration_state
      = ([Assign_clientMetadata_scope ''read write'',
          UpdateState [Set_oauthClientInfo (Some static_client),
                       Set_oauthStep authorization_redirect]],
         Inr ())
   \<and> executeStep example_env ''https://mcp.example/'' registration_state
      = ([Assign_clientMetadata_scope ''read write'',
          RegisterClient ''https://mcp.example/'' (Some example_metadata)
            (example_clientMetadata\<lparr>scope := Some ''read write''\<rparr>),
          SaveClientInformation example_client,
          UpdateState [Set_oauthClientInfo (Some example_client),
                       Set_oauthStep authorization_redirect]],
         Inr ())"
proof -
  have step: "oauthStep registration_state = client_registration"
    and guard: "oauthMetadata registration_state = Some example_metadata"
    and scopes: "scopesSupported registration_state = Inr (Some [''read'', ''write''])"
    by simp_all
  have static:
    "clientInformation (new_DebugInspectorOAuthClientProvider example_env_static ''https://mcp.example/'')
       = Inr (Some static_client)"
    by simp
  have dynamic:
    "clientInformation (new_DebugInspectorOAuthClientProvider example_env ''https://mcp.example/'')
       = Inr None
     \<and> registerClient example_env ''https://mcp.example/'' (Some example_metadata)
         (with_scope
            (clientMetadata (new_DebugInspectorOAuthClientProvider example_env ''https://mcp.example/''))
            (Some [''read'', ''write'']))
       = Inr example_client"
    by simp
  show ?thesis
    using step static dynamic
      client_registration_static_or_dynamic
        [OF step guard scopes, where env = example_env_static
           and url = "''https://mcp.example/''" and info = static_client]
      client_registration_static_or_dynamic
        [OF step guard scopes, where env = example_env
           and url = "''https://mcp.example/''" and registered = example_client]
    by (simp add: scope_events_def with_scope_def)
qed

text \<open>
  C9. At \<open>client_registration\<close> with the guard passed and a scope list at hand (the resource
  metadata's, or else the server metadata's): the first thing the run does is to assign the
  space-joined list to \<open>clientMetadata.scope\<close>, and the provider's template carries that
  scope when the run is over, however it ends. In particular the assignment is all the run
  has done when \<open>clientInformation()\<close> itself fails, it is made when the provider already
  has client information and registration is skipped, and it is made (and the scoped
  metadata sent) when \<open>registerClient\<close> then throws.
\<close>

theorem client_registration_scope_assigned_first:
  assumes "oauthStep st = client_registration"
    and "oauthMetadata st = Some metadata"
    and "scopesSupported st = Inr (Some scopes)"
  shows "(\<exists>rest. trace (executeStep env url st)
                  = Assign_clientMetadata_scope (join_space scopes) # rest)
       \<and> scope (clientMetadata_after
                  (clientMetadata (new_DebugInspectorOAuthClientProvider env url))
                  (trace (executeStep env url st)))
           = Some (join_space scopes)
       \<and> (clientInformation (new_DebugInspectorOAuthClientProvider env url) = Inl e \<longrightarrow>
            executeStep env url st = ([Assign_clientMetadata_scope (join_space scopes)], Inl e))
       \<and> (clientInformation (new_DebugInspectorOAuthClientProvider env url) = Inr (Some info) \<longrightarrow>
            executeStep env url st =
              ([Assign_clientMetadata_scope (join_space scopes),
                UpdateState [Set_oauthClientInfo (Some info),
                             Set_oauthStep authorization_redirect]],
               Inr ()))
       \<and> (clientInformation (new_DebugInspectorOAuthClientProvider env url) = Inr None
            \<and> registerClient env url (Some metadata)
                 ((clientMetadata (new_DebugInspectorOAuthClientProvider env url))
                    \<lparr>scope := Some (join_space scopes)\<rparr>)
                = Inl e' \<longrightarrow>
            executeStep env url st =
              ([Assign_clientMetadata_scope (join_space scopes),
                RegisterClient url (Some metadata)
                  ((clientMetadata (new_DebugInspectorOAuthClientProvider env url))
                     \<lparr>scope := Some (join_space scopes)\<rparr>)],
               Inl e'))"
  using assms
  by (auto simp: executeStep_client_registration trace_def scope_events_def with_scope_def
      Let_def split: sum.splits option.splits)

theorem client_registration_scope_assigned_first_witness:
  "oauthStep registration_state = client_registration
   \<and> scopesSupported registration_state = Inr (Some [''read'', ''write''])
   \<and> join_space [''read'', ''write''] = ''read write''
   \<and> executeStep example_env_static ''https://mcp.example/'' registration_state
      = ([Assign_clientMetadata_scope ''read write'',
          UpdateState [Set_oauthClientInfo (Some static_client),
                       Set_oauthStep authorization_redirect]],
         Inr ())
   \<and> executeStep example_env_refused ''https://mcp.example/'' registration_state
      = ([Assign_clientMetadata_scope ''read write'',
          RegisterClient ''https://mcp.example/'' (Some example_metadata)
            (example_clientMetadata\<lparr>scope := Some ''read write''\<rparr>)],
         Inl (Throw_Error (Error ''Dynamic client registration failed: HTTP 403'')))
   \<and> scope (clientMetadata_after example_clientMetadata
              (trace (executeStep example_env_refused ''https://mcp.example/'' registration_state)))
      = Some ''read write''"
proof -
  have step: "oauthStep registration_state = client_registration"
    and guard: "oauthMetadata registration_state = Some example_metadata"
    and scopes: "scopesSupported registration_state = Inr (Some [''read'', ''write''])"
    by simp_all
  have static:
    "clientInformation (new_DebugInspectorOAuthClientProvider example_env_static ''https://mcp.example/'')
       = Inr (Some static_client)"
    by simp
  have refused:
    "clientInformation (new_DebugInspectorOAuthClientProvider example_env_refused ''https://mcp.example/'')
       = Inr None
     \<and> registerClient example_env_refused ''https://mcp.example/'' (Some example_metadata)
         ((clientMetadata
            (new_DebugInspectorOAuthClientProvider example_env_refused ''https://mcp.example/''))
            \<lparr>scope := Some (join_space [''read'', ''write''])\<rparr>)
       = Inl (Throw_Error (Error ''Dynamic client registration failed: HTTP 403''))"
    by simp
  show ?thesis
    using step scopes static refused
      client_registration_scope_assigned_first
        [OF step guard scopes, where env = example_env_static
           and url = "''https://mcp.example/''" and info = static_client]
      client_registration_scope_assigned_first
        [OF step guard scopes, where env = example_env_refused
           and url = "''https://mcp.example/''"
           and e' = "Throw_Error (Error ''Dynamic client registration failed: HTTP 403'')"]
    by (simp add: trace_def)
qed

subsection \<open>Guards\<close>

text \<open>
  C7. The guard of every step other than \<open>complete\<close> reads the step's declared precondition
  fields and nothing else: two contexts that agree on those fields get the same verdict
  (the same boolean, or the same rejection of the awaited \<open>clientInformation()\<close>), whatever
  else differs between them, and a context that supplies them passes the guard.
\<close>

theorem guards_read_declared_fields_only:
  assumes "step \<noteq> complete"
  shows "(declared_fields_agree step c1 c2 \<longrightarrow>
            canTransition (oauthTransitions step) c1 = canTransition (oauthTransitions step) c2)
       \<and> (declared_fields_supplied step c1 \<longrightarrow>
            canTransition (oauthTransitions step) c1 = Inr True)"
  using assms
  by (cases step)
    (auto simp: token_request_canTransition_def split: sum.splits option.splits)

theorem guards_read_declared_fields_only_witness:
  "token_request \<noteq> complete
   \<and> declared_fields_agree token_request token_context other_token_context
   \<and> declared_fields_supplied token_request token_context
   \<and> state token_context \<noteq> state other_token_context
   \<and> serverUrl token_context \<noteq> serverUrl other_token_context
   \<and> provider token_context \<noteq> provider other_token_context
   \<and> canTransition (oauthTransitions token_request) token_context = Inr True
   \<and> canTransition (oauthTransitions token_request) other_token_context = Inr True"
proof -
  have step: "token_request \<noteq> complete"
    by simp
  have agree: "declared_fields_agree token_request token_context other_token_context"
    by (simp add: token_context_def other_token_context_def stored_provider_def)
  have supplied: "declared_fields_supplied token_request token_context"
    by (simp add: token_context_def stored_provider_def truthy_string_def)
  have differ: "state token_context \<noteq> state other_token_context
      \<and> serverUrl token_context \<noteq> serverUrl other_token_context
      \<and> provider token_context \<noteq> provider other_token_context"
    by (simp add: token_context_def other_token_context_def stored_provider_def
        initial_state_def empty_provider_def)
  show ?thesis
    using step agree supplied differ
      guards_read_declared_fields_only [OF step, of token_context other_token_context]
    by auto
qed

subsection \<open>Raising leaves the Flow State alone\<close>

text \<open>In every action but that of \<open>authorization_code\<close> the call of \<open>updateState\<close> is the last
  statement: an action that raises has not reached it.\<close>

lemma prm_discovery_raises_before_update:
  "outcome (prm_discovery_execute env context) = Inl e \<Longrightarrow>
   updates_of (trace (prm_discovery_execute env context)) = []"
  by (auto simp: prm_discovery_execute_def outcome_def trace_def and_then_cases Let_def
      split: prod.splits sum.splits if_splits)

lemma oauth_metadata_discovery_raises_before_update:
  "outcome (oauth_metadata_discovery_execute env context) = Inl e \<Longrightarrow>
   updates_of (trace (oauth_metadata_discovery_execute env context)) = []"
  by (auto simp: oauth_metadata_discovery_execute_def outcome_def trace_def and_then_cases Let_def
      split: sum.splits option.splits)

lemma client_registration_raises_before_update:
  "outcome (client_registration_execute env context) = Inl e \<Longrightarrow>
   updates_of (trace (client_registration_execute env context)) = []"
  by (auto simp: client_registration_execute_def outcome_def trace_def and_then_cases Let_def
      split: sum.splits option.splits)

lemma authorization_redirect_raises_before_update:
  "outcome (authorization_redirect_execute env context) = Inl e \<Longrightarrow>
   updates_of (trace (authorization_redirect_execute env context)) = []"
  by (auto simp: authorization_redirect_execute_def outcome_def trace_def and_then_cases Let_def
      split: sum.splits prod.splits)

lemma token_request_raises_before_update:
  "outcome (token_request_execute env context) = Inl e \<Longrightarrow>
   updates_of (trace (token_request_execute env context)) = []"
  by (auto simp: token_request_execute_def outcome_def trace_def and_then_cases Let_def
      split: sum.splits)

lemma complete_never_raises:
  "outcome (complete_execute env context) \<noteq> Inl e"
  by (simp add: complete_execute_def outcome_def)

lemma execute_raises_before_update:
  assumes "step \<noteq> authorization_code"
    and "outcome (execute (oauthTransitions step) env context) = Inl e"
  shows "updates_of (trace (execute (oauthTransitions step) env context)) = []"
  using assms
  by (cases step)
    (simp_all add: prm_discovery_raises_before_update
      oauth_metadata_discovery_raises_before_update client_registration_raises_before_update
      authorization_redirect_raises_before_update token_request_raises_before_update
      complete_never_raises)

lemma executeStep_cases:
  "executeStep env url st =
     (let context = \<lparr>state = st, serverUrl = url,
                     provider = new_DebugInspectorOAuthClientProvider env url\<rparr>
      in case canTransition (oauthTransitions (oauthStep st)) context of
           Inl e \<Rightarrow> ([], Inl e)
         | Inr False \<Rightarrow>
             ([], Inl (Throw_Error
                (Error (''Cannot transition from '' @ string_of_OAuthStep (oauthStep st)))))
         | Inr True \<Rightarrow> execute (oauthTransitions (oauthStep st)) env context)"
  by (simp add: executeStep_def Let_def and_then_cases split: sum.splits)

text \<open>
  C8. For every step but \<open>authorization_code\<close>: when the step's action raises it has not
  called \<open>updateState\<close>; and when \<open>executeStep\<close> raises at such a step, be it at the guard
  or in the action, \<open>updateState\<close> has not been called either, so the caller's Flow State
  is, field by field, the one it passed in.
\<close>

theorem raising_leaves_flow_state:
  assumes "step \<noteq> authorization_code"
  shows "(outcome (execute (oauthTransitions step) env context) = Inl e \<longrightarrow>
            updates_of (trace (execute (oauthTransitions step) env context)) = [])
       \<and> (oauthStep st = step \<and> outcome (executeStep env url st) = Inl e' \<longrightarrow>
            updates_of (trace (executeStep env url st)) = []
          \<and> flow_state_after st (trace (executeStep env url st)) = st)"
proof -
  have action: "updates_of (trace (execute (oauthTransitions step) env' context')) = []"
    if "outcome (execute (oauthTransitions step) env' context') = Inl err"
    for env' err and context' :: "'c StateMachineContext"
    using assms that by (rule execute_raises_before_update)
  have sequencer: "updates_of (trace (executeStep env url st)) = []"
    if "oauthStep st = step" and "outcome (executeStep env url st) = Inl e'"
    using that action [of env "\<lparr>state = st, serverUrl = url,
        provider = new_DebugInspectorOAuthClientProvider env url\<rparr>" e']
    by (auto simp: executeStep_cases Let_def outcome_def trace_def
        split: sum.splits bool.splits)
  show ?thesis
    using action [of env "context" e] sequencer
    by (simp add: flow_state_after_def)
qed

theorem raising_leaves_flow_state_witness:
  "client_registration \<noteq> authorization_code
   \<and> oauthStep registration_state = client_registration
   \<and> outcome (executeStep example_env_refused ''https://mcp.example/'' registration_state)
      = Inl (Throw_Error (Error ''Dynamic client registration failed: HTTP 403''))
   \<and> trace (executeStep example_env_refused ''https://mcp.example/'' registration_state) \<noteq> []
   \<and> updates_of (trace (executeStep example_env_refused ''https://mcp.example/'' registration_state))
      = []
   \<and> flow_state_after registration_state
        (trace (executeStep example_env_refused ''https://mcp.example/'' registration_state))
      = registration_state"
proof -
  have step: "client_registration \<noteq> authorization_code"
    by simp
  have run: "executeStep example_env_refused ''https://mcp.example/'' registration_state
      = ([Assign_clientMetadata_scope ''read write'',
          RegisterClient ''https://mcp.example/'' (Some example_metadata)
            (example_clientMetadata\<lparr>scope := Some ''read write''\<rparr>)],
         Inl (Throw_Error (Error ''Dynamic client registration failed: HTTP 403'')))"
    by (simp add: executeStep_client_registration [where metadata = example_metadata
          and scopes = "Some [''read'', ''write'']"] scope_events_def with_scope_def)
  have raised: "oauthStep registration_state = client_registration
      \<and> outcome (executeStep example_env_refused ''https://mcp.example/'' registration_state)
        = Inl (Throw_Error (Error ''Dynamic client registration failed: HTTP 403''))"
    by (simp add: run outcome_def)
  have left: "trace (executeStep example_env_refused ''https://mcp.example/'' registration_state) \<noteq> []"
    by (simp add: run trace_def)
  show ?thesis
    using step raised left
      raising_leaves_flow_state
        [OF step, where st = registration_state and env = example_env_refused
           and url = "''https://mcp.example/''"
           and e' = "Throw_Error (Error ''Dynamic client registration failed: HTTP 403'')",
         THEN conjunct2]
    by simp
qed

end
